theory Spec2Isabelle
  imports Main "HOL-Library.AList" "HOL-Library.Monad_Syntax"
begin

section \<open>Cell values and cell addresses\<close>

text \<open>
  The script \<^verbatim>\<open>examples/create_test_pair.py\<close> hands two kinds of Python literals to the
  spreadsheet library: strings and integers.
\<close>

datatype pyval = PStr string | PInt int

text \<open>
  Modelled from the spec: the cell value of the workbook library (the library is imported by
  the script, its code is not part of the repository). A cell value is a tagged value: empty,
  string, integer, or formula expression, the last being a string that begins with \<open>=\<close> and
  is stored as an opaque string.
\<close>

datatype cell_value = Empty | Str string | Num int | Formula string

fun bind_value :: "pyval \<Rightarrow> cell_value" where
  "bind_value (PInt n) = Num n"
| "bind_value (PStr []) = Str []"
| "bind_value (PStr (c # cs)) = (if c = CHR ''='' then Formula (c # cs) else Str (c # cs))"

text \<open>
  Modelled from the spec: a cell address is a (column, row) pair of 1-based indices, the
  column written as a letter sequence A, B, ..., Z, AA, ... and the row in decimal.
  \<open>coordinate_from_string\<close> reads the textual address the script uses as a key
  (\<^verbatim>\<open>ws2["A1"]\<close>); a key that is not of this shape is rejected (the library raises).
\<close>

type_synonym addr = "nat \<times> nat"

definition is_letter :: "char \<Rightarrow> bool" where
  "is_letter c = (let n = (of_char c :: nat) in 65 \<le> n \<and> n \<le> 90)"

definition is_digit :: "char \<Rightarrow> bool" where
  "is_digit c = (let n = (of_char c :: nat) in 48 \<le> n \<and> n \<le> 57)"

fun column_index :: "nat \<Rightarrow> string \<Rightarrow> nat" where
  "column_index acc [] = acc"
| "column_index acc (c # cs) = column_index (26 * acc + ((of_char c :: nat) - 64)) cs"

fun row_number :: "nat \<Rightarrow> string \<Rightarrow> nat" where
  "row_number acc [] = acc"
| "row_number acc (c # cs) = row_number (10 * acc + ((of_char c :: nat) - 48)) cs"

definition coordinate_from_string :: "string \<Rightarrow> addr option" where
  "coordinate_from_string s =
     (let ls = takeWhile is_letter s; ds = dropWhile is_letter s in
      if ls = [] then None
      else if ds = [] then None
      else if list_ex (\<lambda>c. \<not> is_digit c) ds then None
      else if row_number 0 ds = 0 then None
      else Some (column_index 0 ls, row_number 0 ds))"

section \<open>Worksheets and workbooks\<close>

text \<open>
  Modelled from the spec: a sheet is a name plus a sparse mapping from cell address to cell
  value, with the row cursor of the row-append operation as a field of the sheet. The cells
  are an association list, so that the populated addresses can be enumerated.
\<close>

record worksheet =
  title :: string
  cells :: "(addr \<times> cell_value) list"
  current_row :: nat

text \<open>
  Modelled from the spec: a workbook is an ordered sequence of sheets, one of which is
  designated active. The script holds references to sheets (\<^verbatim>\<open>ws\<close>, \<^verbatim>\<open>ws2\<close>, \<^verbatim>\<open>ws3\<close>)
  and mutates the workbook through them; a reference is the position of the sheet in the
  workbook.
\<close>

record workbook =
  sheets :: "worksheet list"
  active :: nat

definition new_sheet :: "string \<Rightarrow> worksheet" where
  "new_sheet t = \<lparr>title = t, cells = [], current_row = 0\<rparr>"

text \<open>
  Modelled from the spec: \<^verbatim>\<open>openpyxl.Workbook()\<close> gives a workbook whose active, first sheet
  is always present (the library titles it "Sheet").
\<close>

definition Workbook :: workbook where
  "Workbook = \<lparr>sheets = [new_sheet ''Sheet''], active = 0\<rparr>"

text \<open>
  A mutation through a sheet reference. References come from \<open>active\<close> and
  \<open>create_sheet\<close> only and sheets are never removed, so a reference is always in range;
  out of range the workbook is left as it is.
\<close>

definition update_sheet :: "nat \<Rightarrow> (worksheet \<Rightarrow> worksheet) \<Rightarrow> workbook \<Rightarrow> workbook" where
  "update_sheet h f wb =
     (if h < length (sheets wb) then wb\<lparr>sheets := (sheets wb)[h := f (sheets wb ! h)]\<rparr> else wb)"

definition set_title :: "nat \<Rightarrow> string \<Rightarrow> workbook \<Rightarrow> workbook" where
  "set_title h t wb = update_sheet h (\<lambda>ws. ws\<lparr>title := t\<rparr>) wb"

text \<open>
  Modelled from the spec: the row-append operation assigns the values to consecutive columns,
  starting at column 1 of the next unused row, and advances the row cursor of the sheet.
\<close>

fun put_row :: "nat \<Rightarrow> nat \<Rightarrow> pyval list \<Rightarrow> (addr \<times> cell_value) list \<Rightarrow> (addr \<times> cell_value) list" where
  "put_row r c [] cs = cs"
| "put_row r c (v # vs) cs = put_row r (Suc c) vs (AList.update (c, r) (bind_value v) cs)"

definition append_ws :: "pyval list \<Rightarrow> worksheet \<Rightarrow> worksheet" where
  "append_ws vs ws =
     (let r = current_row ws + 1 in ws\<lparr>cells := put_row r 1 vs (cells ws), current_row := r\<rparr>)"

definition append_row :: "nat \<Rightarrow> pyval list \<Rightarrow> workbook \<Rightarrow> workbook" where
  "append_row h vs wb = update_sheet h (append_ws vs) wb"

text \<open>
  Modelled from the spec: later sheets append in the order created. \<open>create_sheet\<close> returns
  the reference to the new sheet and the workbook.
\<close>

definition create_sheet :: "string \<Rightarrow> workbook \<Rightarrow> nat \<times> workbook" where
  "create_sheet t wb = (length (sheets wb), wb\<lparr>sheets := sheets wb @ [new_sheet t]\<rparr>)"

text \<open>
  The assignment \<^verbatim>\<open>ws["A1"] = v\<close>: the key is read as an address, the cell at that address
  is set and the row cursor covers its row. \<open>None\<close> is the exception of a malformed key.
\<close>

definition setitem_ws :: "string \<Rightarrow> pyval \<Rightarrow> worksheet \<Rightarrow> worksheet option" where
  "setitem_ws key v ws =
     (case coordinate_from_string key of
        None \<Rightarrow> None
      | Some a \<Rightarrow> Some (ws\<lparr>cells := AList.update a (bind_value v) (cells ws),
                            current_row := max (snd a) (current_row ws)\<rparr>))"

definition setitem :: "nat \<Rightarrow> string \<Rightarrow> pyval \<Rightarrow> workbook \<Rightarrow> workbook option" where
  "setitem h key v wb =
     (if h < length (sheets wb)
      then (case setitem_ws key v (sheets wb ! h) of
              None \<Rightarrow> None
            | Some ws \<Rightarrow> Some (wb\<lparr>sheets := (sheets wb)[h := ws]\<rparr>))
      else None)"

section \<open>The two construction routines\<close>

text \<open>
  Lines 7 to 30 of \<^verbatim>\<open>create_old\<close>: the workbook as it stands when it is handed to
  \<^verbatim>\<open>wb.save\<close>. \<open>None\<close> would be an exception raised during construction.
\<close>

definition old_workbook :: "workbook option" where
  "old_workbook =
     (let wb = Workbook;
          ws = active wb;
          wb = set_title ws ''Data'' wb;
          wb = append_row ws [PStr ''Patient ID'', PStr ''Age'', PStr ''Score'', PStr ''Group''] wb;
          wb = append_row ws [PStr ''P001'', PInt 34, PInt 88, PStr ''Control''] wb;
          wb = append_row ws [PStr ''P002'', PInt 28, PInt 92, PStr ''Treatment''] wb;
          wb = append_row ws [PStr ''P003'', PInt 45, PInt 76, PStr ''Control''] wb;
          wb = append_row ws [PStr ''P004'', PInt 31, PInt 85, PStr ''Treatment''] wb;
          wb = append_row ws [PStr ''P005'', PInt 39, PInt 90, PStr ''Control''] wb;
          (ws2, wb) = create_sheet ''Summary'' wb
      in do {
        wb \<leftarrow> setitem ws2 ''A1'' (PStr ''Metric'') wb;
        wb \<leftarrow> setitem ws2 ''B1'' (PStr ''Value'') wb;
        wb \<leftarrow> setitem ws2 ''A2'' (PStr ''Count'') wb;
        wb \<leftarrow> setitem ws2 ''B2'' (PInt 5) wb;
        wb \<leftarrow> setitem ws2 ''A3'' (PStr ''Mean Age'') wb;
        wb \<leftarrow> setitem ws2 ''B3'' (PStr ''=AVERAGE(Data!B2:B6)'') wb;
        wb \<leftarrow> setitem ws2 ''A4'' (PStr ''Mean Score'') wb;
        wb \<leftarrow> setitem ws2 ''B4'' (PStr ''=AVERAGE(Data!C2:C6)'') wb;
        wb \<leftarrow> setitem ws2 ''A5'' (PStr ''Total Score'') wb;
        wb \<leftarrow> setitem ws2 ''B5'' (PStr ''=SUM(Data!C2:C6)'') wb;
        Some wb
      })"

text \<open>Lines 36 to 67 of \<^verbatim>\<open>create_new\<close>.\<close>

definition new_workbook :: "workbook option" where
  "new_workbook =
     (let wb = Workbook;
          ws = active wb;
          wb = set_title ws ''Data'' wb;
          wb = append_row ws [PStr ''Patient ID'', PStr ''Age'', PStr ''Score'', PStr ''Group''] wb;
          wb = append_row ws [PStr ''P001'', PInt 34, PInt 88, PStr ''Control''] wb;
          wb = append_row ws [PStr ''P002'', PInt 29, PInt 95, PStr ''Treatment''] wb;
          wb = append_row ws [PStr ''P003'', PInt 45, PInt 76, PStr ''Control''] wb;
          wb = append_row ws [PStr ''P004'', PInt 31, PInt 85, PStr ''Treatment''] wb;
          wb = append_row ws [PStr ''P005'', PInt 39, PInt 90, PStr ''Control''] wb;
          wb = append_row ws [PStr ''P006'', PInt 42, PInt 81, PStr ''Treatment''] wb;
          (ws2, wb) = create_sheet ''Summary'' wb
      in do {
        wb \<leftarrow> setitem ws2 ''A1'' (PStr ''Metric'') wb;
        wb \<leftarrow> setitem ws2 ''B1'' (PStr ''Value'') wb;
        wb \<leftarrow> setitem ws2 ''A2'' (PStr ''Count'') wb;
        wb \<leftarrow> setitem ws2 ''B2'' (PInt 6) wb;
        wb \<leftarrow> setitem ws2 ''A3'' (PStr ''Mean Age'') wb;
        wb \<leftarrow> setitem ws2 ''B3'' (PStr ''=AVERAGE(Data!B2:B7)'') wb;
        wb \<leftarrow> setitem ws2 ''A4'' (PStr ''Median Score'') wb;
        wb \<leftarrow> setitem ws2 ''B4'' (PStr ''=MEDIAN(Data!C2:C7)'') wb;
        wb \<leftarrow> setitem ws2 ''A5'' (PStr ''Total Score'') wb;
        wb \<leftarrow> setitem ws2 ''B5'' (PStr ''=SUM(Data!C2:C7)'') wb;
        let (ws3, wb) = create_sheet ''Notes'' wb;
        wb \<leftarrow> setitem ws3 ''A1'' (PStr ''Date'') wb;
        wb \<leftarrow> setitem ws3 ''B1'' (PStr ''Note'') wb;
        wb \<leftarrow> setitem ws3 ''A2'' (PStr ''2026-02-14'') wb;
        wb \<leftarrow> setitem ws3 ''B2'' (PStr ''Added patient P006, updated summary formulas'') wb;
        Some wb
      })"

section \<open>The entry point and the serialization sink\<close>

text \<open>
  \<^verbatim>\<open>wb.save(path)\<close> is the external serialization sink. It is a parameter of the model:
  given the workbook, the destination path and the state of the file system, it either
  succeeds or raises an error of its own, and leaves a file system state behind.
  The world of the script is that file system state and the lines printed so far.
\<close>

datatype 'e failure = ValueError | SinkError 'e

record 'fs world =
  fs :: 'fs
  stdout :: "string list"

type_synonym ('e, 'fs) sink = "workbook \<Rightarrow> string \<Rightarrow> 'fs \<Rightarrow> 'e option \<times> 'fs"

definition print_line :: "string \<Rightarrow> 'fs world \<Rightarrow> 'fs world" where
  "print_line s w = w\<lparr>stdout := stdout w @ [s]\<rparr>"

definition save :: "('e, 'fs) sink \<Rightarrow> workbook \<Rightarrow> string \<Rightarrow> 'fs world \<Rightarrow> 'e failure option \<times> 'fs world" where
  "save sink wb path w =
     (case sink wb path (fs w) of
        (None, f) \<Rightarrow> (None, w\<lparr>fs := f\<rparr>)
      | (Some e, f) \<Rightarrow> (Some (SinkError e), w\<lparr>fs := f\<rparr>))"

text \<open>
  A routine returns the exception that ended it, if any, and the world it leaves. Nothing in
  the script catches an exception, so the first one ends the routine and its caller.
\<close>

definition create_old :: "('e, 'fs) sink \<Rightarrow> 'fs world \<Rightarrow> 'e failure option \<times> 'fs world" where
  "create_old sink w =
     (case old_workbook of
        None \<Rightarrow> (Some ValueError, w)
      | Some wb \<Rightarrow>
          (case save sink wb ''test_old.xlsx'' w of
             (Some e, w') \<Rightarrow> (Some e, w')
           | (None, w') \<Rightarrow> (None, print_line ''Created test_old.xlsx'' w')))"

definition create_new :: "('e, 'fs) sink \<Rightarrow> 'fs world \<Rightarrow> 'e failure option \<times> 'fs world" where
  "create_new sink w =
     (case new_workbook of
        None \<Rightarrow> (Some ValueError, w)
      | Some wb \<Rightarrow>
          (case save sink wb ''test_new.xlsx'' w of
             (Some e, w') \<Rightarrow> (Some e, w')
           | (None, w') \<Rightarrow> (None, print_line ''Created test_new.xlsx'' w')))"

text \<open>Lines 72 to 77: the body under \<^verbatim>\<open>if __name__ == "__main__"\<close>.\<close>

definition main :: "('e, 'fs) sink \<Rightarrow> 'fs world \<Rightarrow> 'e failure option \<times> 'fs world" where
  "main sink w =
     (case create_old sink w of
        (Some e, w1) \<Rightarrow> (Some e, w1)
      | (None, w1) \<Rightarrow>
          (case create_new sink w1 of
             (Some e, w2) \<Rightarrow> (Some e, w2)
           | (None, w2) \<Rightarrow>
               (None,
                print_line ''  xlsx-review --textconv test_new.xlsx''
                  (print_line ''  xlsx-review --diff test_old.xlsx test_new.xlsx''
                    (print_line ''Done! Run:'' w2)))))"

section \<open>Observations on a built workbook\<close>

definition sheetnames :: "workbook \<Rightarrow> string list" where
  "sheetnames wb = map title (sheets wb)"

definition sheet_by_name :: "string \<Rightarrow> workbook \<Rightarrow> worksheet option" where
  "sheet_by_name n wb = find (\<lambda>ws. title ws = n) (sheets wb)"

definition cell_at :: "workbook \<Rightarrow> string \<Rightarrow> addr \<Rightarrow> cell_value option" where
  "cell_at wb n a = (case sheet_by_name n wb of None \<Rightarrow> None | Some ws \<Rightarrow> map_of (cells ws) a)"

definition cell_named :: "workbook \<Rightarrow> string \<Rightarrow> string \<Rightarrow> cell_value option" where
  "cell_named wb n key =
     (case coordinate_from_string key of None \<Rightarrow> None | Some a \<Rightarrow> cell_at wb n a)"

definition cells_of_row :: "worksheet \<Rightarrow> nat \<Rightarrow> (addr \<times> cell_value) list" where
  "cells_of_row ws r = filter (\<lambda>p. snd (fst p) = r) (cells ws)"

definition populated_rows :: "worksheet \<Rightarrow> nat list" where
  "populated_rows ws = remdups (map (\<lambda>p. snd (fst p)) (cells ws))"

definition data_rows :: "worksheet \<Rightarrow> nat list" where
  "data_rows ws = filter (\<lambda>r. 1 < r) (populated_rows ws)"

definition max_row :: "worksheet \<Rightarrow> nat" where
  "max_row ws = fold max (map (\<lambda>p. snd (fst p)) (cells ws)) 0"

fun formula_of :: "addr \<times> cell_value \<Rightarrow> (addr \<times> string) option" where
  "formula_of (a, Formula s) = Some (a, s)"
| "formula_of (a, v) = None"

definition formula_cells :: "worksheet \<Rightarrow> (addr \<times> string) list" where
  "formula_cells ws = List.map_filter formula_of (cells ws)"

text \<open>
  The range a formula string refers to, read the way the specification writes it:
  \<^verbatim>\<open>=NAME(Sheet!B2:B7)\<close> refers to the sheet \<^verbatim>\<open>Sheet\<close> and to the addresses B2 and B7.
\<close>

definition split_at :: "char \<Rightarrow> string \<Rightarrow> (string \<times> string) option" where
  "split_at c s =
     (if c \<in> set s then Some (takeWhile (\<lambda>x. x \<noteq> c) s, tl (dropWhile (\<lambda>x. x \<noteq> c) s)) else None)"

definition formula_range :: "string \<Rightarrow> (string \<times> addr \<times> addr) option" where
  "formula_range s = do {
     (f, r) \<leftarrow> split_at (CHR ''('') s;
     (arg, t) \<leftarrow> split_at (CHR '')'') r;
     (sh, rng) \<leftarrow> split_at (CHR ''!'') arg;
     (a, b) \<leftarrow> split_at (CHR '':'') rng;
     p \<leftarrow> coordinate_from_string a;
     q \<leftarrow> coordinate_from_string b;
     Some (sh, p, q)
   }"

text \<open>
  The delta cells the specification enumerates: Data B3, Data C3, Data row 7, Summary B2,
  Summary B3, Summary A4, Summary B4, Summary B5.
\<close>

definition delta_cell :: "string \<Rightarrow> addr \<Rightarrow> bool" where
  "delta_cell n a =
     ((n = ''Data'' \<and> (a = (2, 3) \<or> a = (3, 3) \<or> snd a = 7)) \<or>
      (n = ''Summary'' \<and> (a = (2, 2) \<or> a = (2, 3) \<or> a = (1, 4) \<or> a = (2, 4) \<or> a = (2, 5))))"

section \<open>The two workbooks, evaluated\<close>

lemma old_workbook_eq:
  "old_workbook = Some \<lparr>sheets =
     [\<lparr>title = ''Data'',
         cells =
           [((1, 1), Str ''Patient ID''), ((2, 1), Str ''Age''),
            ((3, 1), Str ''Score''), ((4, 1), Str ''Group''),
            ((1, 2), Str ''P001''), ((2, 2), Num 34), ((3, 2), Num 88),
            ((4, 2), Str ''Control''), ((1, 3), Str ''P002''),
            ((2, 3), Num 28), ((3, 3), Num 92), ((4, 3), Str ''Treatment''),
            ((1, 4), Str ''P003''), ((2, 4), Num 45), ((3, 4), Num 76),
            ((4, 4), Str ''Control''), ((1, 5), Str ''P004''),
            ((2, 5), Num 31), ((3, 5), Num 85), ((4, 5), Str ''Treatment''),
            ((1, 6), Str ''P005''), ((2, 6), Num 39), ((3, 6), Num 90),
            ((4, 6), Str ''Control'')],
         current_row = 6\<rparr>,
      \<lparr>title = ''Summary'',
         cells =
           [((1, 1), Str ''Metric''), ((2, 1), Str ''Value''),
            ((1, 2), Str ''Count''), ((2, 2), Num 5),
            ((1, 3), Str ''Mean Age''),
            ((2, 3), Formula ''=AVERAGE(Data!B2:B6)''),
            ((1, 4), Str ''Mean Score''),
            ((2, 4), Formula ''=AVERAGE(Data!C2:C6)''),
            ((1, 5), Str ''Total Score''),
            ((2, 5), Formula ''=SUM(Data!C2:C6)'')],
         current_row = 5\<rparr>],
     active = 0\<rparr>"
  by code_simp

lemma new_workbook_eq:
  "new_workbook = Some \<lparr>sheets =
     [\<lparr>title = ''Data'',
         cells =
           [((1, 1), Str ''Patient ID''), ((2, 1), Str ''Age''),
            ((3, 1), Str ''Score''), ((4, 1), Str ''Group''),
            ((1, 2), Str ''P001''), ((2, 2), Num 34), ((3, 2), Num 88),
            ((4, 2), Str ''Control''), ((1, 3), Str ''P002''),
            ((2, 3), Num 29), ((3, 3), Num 95), ((4, 3), Str ''Treatment''),
            ((1, 4), Str ''P003''), ((2, 4), Num 45), ((3, 4), Num 76),
            ((4, 4), Str ''Control''), ((1, 5), Str ''P004''),
            ((2, 5), Num 31), ((3, 5), Num 85), ((4, 5), Str ''Treatment''),
            ((1, 6), Str ''P005''), ((2, 6), Num 39), ((3, 6), Num 90),
            ((4, 6), Str ''Control''), ((1, 7), Str ''P006''),
            ((2, 7), Num 42), ((3, 7), Num 81),
            ((4, 7), Str ''Treatment'')],
         current_row = 7\<rparr>,
      \<lparr>title = ''Summary'',
         cells =
           [((1, 1), Str ''Metric''), ((2, 1), Str ''Value''),
            ((1, 2), Str ''Count''), ((2, 2), Num 6),
            ((1, 3), Str ''Mean Age''),
            ((2, 3), Formula ''=AVERAGE(Data!B2:B7)''),
            ((1, 4), Str ''Median Score''),
            ((2, 4), Formula ''=MEDIAN(Data!C2:C7)''),
            ((1, 5), Str ''Total Score''),
            ((2, 5), Formula ''=SUM(Data!C2:C7)'')],
         current_row = 5\<rparr>,
      \<lparr>title = ''Notes'',
         cells =
           [((1, 1), Str ''Date''), ((2, 1), Str ''Note''),
            ((1, 2), Str ''2026-02-14''),
            ((2, 2), Str ''Added patient P006, updated summary formulas'')],
         current_row = 2\<rparr>],
     active = 0\<rparr>"
  by code_simp

lemmas coordinate_simps = coordinate_from_string_def is_letter_def is_digit_def

lemmas observation_simps =
  sheetnames_def sheet_by_name_def cell_at_def cell_named_def cells_of_row_def
  populated_rows_def data_rows_def max_row_def formula_cells_def List.map_filter_def

text \<open>
  C1. Building "old" yields a Data sheet whose row 3 is the P002 record with Age 28 and
  Score 92 and a Summary sheet whose row 2, labelled "Count", has value 5. Building "new"
  yields Data row 3 with Age 29 and Score 95, Summary row 2 with value 6, and a third sheet
  "Notes" with A1 = "Date" and B1 = "Note"; "old" has no sheet "Notes".
\<close>

theorem scenario_old_new:
  "\<exists>wo wn. old_workbook = Some wo \<and> new_workbook = Some wn \<and>
     cell_named wo ''Data'' ''B1'' = Some (Str ''Age'') \<and>
     cell_named wo ''Data'' ''C1'' = Some (Str ''Score'') \<and>
     cell_named wo ''Data'' ''A3'' = Some (Str ''P002'') \<and>
     cell_named wo ''Data'' ''B3'' = Some (Num 28) \<and>
     cell_named wo ''Data'' ''C3'' = Some (Num 92) \<and>
     cell_named wo ''Summary'' ''A2'' = Some (Str ''Count'') \<and>
     cell_named wo ''Summary'' ''B2'' = Some (Num 5) \<and>
     cell_named wn ''Data'' ''B1'' = Some (Str ''Age'') \<and>
     cell_named wn ''Data'' ''C1'' = Some (Str ''Score'') \<and>
     cell_named wn ''Data'' ''A3'' = Some (Str ''P002'') \<and>
     cell_named wn ''Data'' ''B3'' = Some (Num 29) \<and>
     cell_named wn ''Data'' ''C3'' = Some (Num 95) \<and>
     cell_named wn ''Summary'' ''A2'' = Some (Str ''Count'') \<and>
     cell_named wn ''Summary'' ''B2'' = Some (Num 6) \<and>
     length (sheets wn) = 3 \<and> title (sheets wn ! 2) = ''Notes'' \<and>
     cell_named wn ''Notes'' ''A1'' = Some (Str ''Date'') \<and>
     cell_named wn ''Notes'' ''B1'' = Some (Str ''Note'') \<and>
     sheet_by_name ''Notes'' wo = None \<and> ''Notes'' \<notin> set (sheetnames wo)"
  unfolding old_workbook_eq new_workbook_eq
  by (simp add: observation_simps coordinate_simps)

text \<open>
  C2. Below its header row (row 1, four labels) the Data sheet of "old" has exactly the five
  data rows 2 to 6 and the Data sheet of "new" exactly the six data rows 2 to 7; every formula
  string on the Summary sheet of "new" refers to a range of the Data sheet whose endpoints
  are in rows 2 and 7.
\<close>

theorem row_counts_and_ranges:
  "\<exists>wo wn od nd ns. old_workbook = Some wo \<and> new_workbook = Some wn \<and>
     sheet_by_name ''Data'' wo = Some od \<and> sheet_by_name ''Data'' wn = Some nd \<and>
     sheet_by_name ''Summary'' wn = Some ns \<and>
     map fst (cells_of_row od 1) = [(1, 1), (2, 1), (3, 1), (4, 1)] \<and>
     map fst (cells_of_row nd 1) = [(1, 1), (2, 1), (3, 1), (4, 1)] \<and>
     data_rows od = [2, 3, 4, 5, 6] \<and> length (data_rows od) = 5 \<and>
     data_rows nd = [2, 3, 4, 5, 6, 7] \<and> length (data_rows nd) = 6 \<and>
     map (\<lambda>p. formula_range (snd p)) (formula_cells ns) =
       [Some (''Data'', (2, 2), (2, 7)), Some (''Data'', (3, 2), (3, 7)),
        Some (''Data'', (3, 2), (3, 7))]"
  unfolding old_workbook_eq new_workbook_eq
  by (simp add: observation_simps coordinate_simps formula_range_def split_at_def)

text \<open>
  C4. The sheet names of "new" minus those of "old" are exactly {"Notes"}, every sheet name
  of "old" occurs in "new", and the sheet order is Data, Summary in "old" and Data, Summary,
  Notes in "new": the sheet "Notes" is appended after "Summary".
\<close>

theorem structural_delta:
  "\<exists>wo wn. old_workbook = Some wo \<and> new_workbook = Some wn \<and>
     set (sheetnames wn) - set (sheetnames wo) = {''Notes''} \<and>
     set (sheetnames wo) \<subseteq> set (sheetnames wn) \<and>
     sheetnames wo = [''Data'', ''Summary''] \<and>
     sheetnames wn = [''Data'', ''Summary'', ''Notes''] \<and>
     sheetnames wn = sheetnames wo @ [''Notes'']"
  unfolding old_workbook_eq new_workbook_eq
  by (simp add: observation_simps)

text \<open>
  C10. The one data row added to the Data sheet of "new" is appended at the end: it is row 7,
  columns A to D, with the values "P006", 42, 81, "Treatment". Row 7 is the only row of
  "new" that "old" does not have, and rows 1 to 6 occupy the same addresses in both.
\<close>

theorem appended_row:
  "\<exists>wo wn od nd. old_workbook = Some wo \<and> new_workbook = Some wn \<and>
     sheet_by_name ''Data'' wo = Some od \<and> sheet_by_name ''Data'' wn = Some nd \<and>
     cells_of_row nd 7 =
       [((1, 7), Str ''P006''), ((2, 7), Num 42), ((3, 7), Num 81), ((4, 7), Str ''Treatment'')] \<and>
     cells_of_row od 7 = [] \<and>
     max_row od = 6 \<and> max_row nd = 7 \<and>
     populated_rows od = [1, 2, 3, 4, 5, 6] \<and>
     populated_rows nd = [1, 2, 3, 4, 5, 6, 7] \<and>
     filter (\<lambda>r. r \<notin> set (populated_rows od)) (populated_rows nd) = [7] \<and>
     map (\<lambda>r. map fst (cells_of_row nd r)) [1, 2, 3, 4, 5, 6] =
       map (\<lambda>r. map fst (cells_of_row od r)) [1, 2, 3, 4, 5, 6]"
  unfolding old_workbook_eq new_workbook_eq
  by (simp add: observation_simps)

lemma create_sheet_appends:
  "sheetnames (snd (create_sheet t wb)) = sheetnames wb @ [t]"
  "active (snd (create_sheet t wb)) = active wb"
  "fst (create_sheet t wb) = length (sheets wb)"
  by (simp_all add: create_sheet_def sheetnames_def new_sheet_def)

lemma update_sheet_keeps:
  "length (sheets (update_sheet h f wb)) = length (sheets wb)"
  "active (update_sheet h f wb) = active wb"
  by (simp_all add: update_sheet_def)

text \<open>
  C9. In the workbook either routine builds, the sheet names are pairwise distinct, none is
  the empty string, and the sheets stand in the order they were created: the sheet a fresh
  workbook starts with (retitled "Data") is first and is the active sheet, and each later
  sheet is appended behind the ones already there. Retitling and appending rows change
  neither the number of sheets, their order nor the active sheet.
\<close>

theorem sheet_name_invariant:
  "(\<exists>wo wn. old_workbook = Some wo \<and> new_workbook = Some wn \<and>
     distinct (sheetnames wo) \<and> distinct (sheetnames wn) \<and>
     [] \<notin> set (sheetnames wo) \<and> [] \<notin> set (sheetnames wn) \<and>
     sheetnames wo = [''Data'', ''Summary''] \<and>
     sheetnames wn = [''Data'', ''Summary'', ''Notes''] \<and>
     active wo = 0 \<and> active wn = 0 \<and>
     title (sheets wo ! active wo) = ''Data'' \<and> title (sheets wn ! active wn) = ''Data'') \<and>
   length (sheets Workbook) = 1 \<and> active Workbook = 0 \<and>
   (\<forall>h t wb. length (sheets (set_title h t wb)) = length (sheets wb) \<and>
      active (set_title h t wb) = active wb) \<and>
   (\<forall>h vs wb. sheetnames (append_row h vs wb) = sheetnames wb \<and>
      active (append_row h vs wb) = active wb) \<and>
   (\<forall>t wb. sheetnames (snd (create_sheet t wb)) = sheetnames wb @ [t] \<and>
      active (snd (create_sheet t wb)) = active wb \<and>
      fst (create_sheet t wb) = length (sheets wb))"
proof -
  have built: "\<exists>wo wn. old_workbook = Some wo \<and> new_workbook = Some wn \<and>
     distinct (sheetnames wo) \<and> distinct (sheetnames wn) \<and>
     [] \<notin> set (sheetnames wo) \<and> [] \<notin> set (sheetnames wn) \<and>
     sheetnames wo = [''Data'', ''Summary''] \<and>
     sheetnames wn = [''Data'', ''Summary'', ''Notes''] \<and>
     active wo = 0 \<and> active wn = 0 \<and>
     title (sheets wo ! active wo) = ''Data'' \<and> title (sheets wn ! active wn) = ''Data''"
    unfolding old_workbook_eq new_workbook_eq by (simp add: sheetnames_def)
  have fresh: "length (sheets Workbook) = 1 \<and> active Workbook = 0"
    by (simp add: Workbook_def)
  have retitle: "\<forall>h t wb. length (sheets (set_title h t wb)) = length (sheets wb) \<and>
      active (set_title h t wb) = active wb"
    by (simp add: set_title_def update_sheet_keeps)
  have rows: "\<forall>h vs wb. sheetnames (append_row h vs wb) = sheetnames wb \<and>
      active (append_row h vs wb) = active wb"
    by (simp add: append_row_def update_sheet_def sheetnames_def append_ws_def Let_def
        map_update list_update_same_conv)
  have later: "\<forall>t wb. sheetnames (snd (create_sheet t wb)) = sheetnames wb @ [t] \<and>
      active (snd (create_sheet t wb)) = active wb \<and>
      fst (create_sheet t wb) = length (sheets wb)"
    by (simp add: create_sheet_appends)
  from built fresh retitle rows later show ?thesis by blast
qed

lemma setitem_stores:
  "setitem h key v wb = Some wb' \<Longrightarrow> coordinate_from_string key = Some b \<Longrightarrow>
   map_of (cells (sheets wb' ! h)) b = Some (bind_value v)"
  by (auto simp: setitem_def setitem_ws_def update_conv' split: if_splits option.splits)

lemma setitem_frame:
  "setitem h key v wb = Some wb' \<Longrightarrow> coordinate_from_string key = Some b \<Longrightarrow>
   (h', a) \<noteq> (h, b) \<Longrightarrow>
   map_of (cells (sheets wb' ! h')) a = map_of (cells (sheets wb ! h')) a"
  by (auto simp: setitem_def setitem_ws_def update_conv' nth_list_update
      split: if_splits option.splits)

lemma create_sheet_frame:
  "h' < length (sheets wb) \<Longrightarrow> sheets (snd (create_sheet t wb)) ! h' = sheets wb ! h'"
  by (simp add: create_sheet_def nth_append)

text \<open>
  C5. Every formula cell of either built workbook stores exactly the literal string assigned
  to it, and that string begins with \<open>=\<close>; in particular Summary B3 of "new" stores
  \<^verbatim>\<open>=AVERAGE(Data!B2:B7)\<close>. No step rewrites a stored formula: a string beginning with
  \<open>=\<close> is stored as it is, an assignment stores exactly the value bound from its argument,
  a later assignment leaves every other cell of every sheet as it was, and creating a sheet
  leaves the existing sheets as they were.
\<close>

theorem formula_opacity:
  "(\<exists>wo wn. old_workbook = Some wo \<and> new_workbook = Some wn \<and>
     map formula_cells (sheets wo) =
       [[], [((2, 3), ''=AVERAGE(Data!B2:B6)''), ((2, 4), ''=AVERAGE(Data!C2:C6)''),
             ((2, 5), ''=SUM(Data!C2:C6)'')]] \<and>
     map formula_cells (sheets wn) =
       [[], [((2, 3), ''=AVERAGE(Data!B2:B7)''), ((2, 4), ''=MEDIAN(Data!C2:C7)''),
             ((2, 5), ''=SUM(Data!C2:C7)'')], []] \<and>
     cell_named wn ''Summary'' ''B3'' = Some (Formula ''=AVERAGE(Data!B2:B7)'') \<and>
     list_all (\<lambda>p. take 1 (snd p) = ''='')
       (concat (map formula_cells (sheets wo @ sheets wn)))) \<and>
   (\<forall>s. bind_value (PStr (CHR ''='' # s)) = Formula (CHR ''='' # s)) \<and>
   (\<forall>h key v wb wb' b. setitem h key v wb = Some wb' \<longrightarrow>
      coordinate_from_string key = Some b \<longrightarrow>
      map_of (cells (sheets wb' ! h)) b = Some (bind_value v)) \<and>
   (\<forall>h key v wb wb' b h' a. setitem h key v wb = Some wb' \<longrightarrow>
      coordinate_from_string key = Some b \<longrightarrow> (h', a) \<noteq> (h, b) \<longrightarrow>
      map_of (cells (sheets wb' ! h')) a = map_of (cells (sheets wb ! h')) a) \<and>
   (\<forall>t wb h'. h' < length (sheets wb) \<longrightarrow>
      sheets (snd (create_sheet t wb)) ! h' = sheets wb ! h')"
proof -
  have built: "\<exists>wo wn. old_workbook = Some wo \<and> new_workbook = Some wn \<and>
     map formula_cells (sheets wo) =
       [[], [((2, 3), ''=AVERAGE(Data!B2:B6)''), ((2, 4), ''=AVERAGE(Data!C2:C6)''),
             ((2, 5), ''=SUM(Data!C2:C6)'')]] \<and>
     map formula_cells (sheets wn) =
       [[], [((2, 3), ''=AVERAGE(Data!B2:B7)''), ((2, 4), ''=MEDIAN(Data!C2:C7)''),
             ((2, 5), ''=SUM(Data!C2:C7)'')], []] \<and>
     cell_named wn ''Summary'' ''B3'' = Some (Formula ''=AVERAGE(Data!B2:B7)'') \<and>
     list_all (\<lambda>p. take 1 (snd p) = ''='')
       (concat (map formula_cells (sheets wo @ sheets wn)))"
    unfolding old_workbook_eq new_workbook_eq
    by (simp add: observation_simps coordinate_simps)
  have tag: "\<forall>s. bind_value (PStr (CHR ''='' # s)) = Formula (CHR ''='' # s)"
    by simp
  from built tag setitem_stores setitem_frame create_sheet_frame show ?thesis
    by blast
qed

theorem formula_opacity_witness:
  "\<exists>wb'. setitem 0 ''B3'' (PStr ''=SUM(A1:A2)'') Workbook = Some wb' \<and>
     coordinate_from_string ''B3'' = Some (2, 3) \<and>
     map_of (cells (sheets wb' ! 0)) (2, 3) = Some (Formula ''=SUM(A1:A2)'') \<and>
     (0, (1, 1)) \<noteq> (0 :: nat, (2 :: nat, 3 :: nat)) \<and>
     map_of (cells (sheets wb' ! 0)) (1, 1) = map_of (cells (sheets Workbook ! 0)) (1, 1) \<and>
     0 < length (sheets Workbook) \<and>
     sheets (snd (create_sheet ''Notes'' Workbook)) ! 0 = sheets Workbook ! 0"
proof -
  have c: "coordinate_from_string ''B3'' = Some (2, 3)"
    by (simp add: coordinate_simps)
  obtain wb' where s: "setitem 0 ''B3'' (PStr ''=SUM(A1:A2)'') Workbook = Some wb'"
    by (simp add: setitem_def setitem_ws_def Workbook_def c)
  have n: "(0, (1, 1)) \<noteq> (0 :: nat, (2 :: nat, 3 :: nat))" by simp
  have l: "0 < length (sheets Workbook)" by (simp add: Workbook_def)
  from formula_opacity s c n l have
    "map_of (cells (sheets wb' ! 0)) (2, 3) = Some (bind_value (PStr ''=SUM(A1:A2)''))"
    "map_of (cells (sheets wb' ! 0)) (1, 1) = map_of (cells (sheets Workbook ! 0)) (1, 1)"
    "sheets (snd (create_sheet ''Notes'' Workbook)) ! 0 = sheets Workbook ! 0"
    by blast+
  with s c n l show ?thesis by simp
qed

text \<open>
  C3. For every cell address populated in both workbooks on the shared sheets "Data" and
  "Summary" that is not one of the enumerated delta cells, the cell of "old" equals the cell
  of "new": same value and same type tag.
\<close>

theorem minimal_delta:
  "\<exists>wo wn. old_workbook = Some wo \<and> new_workbook = Some wn \<and>
     (\<forall>n a v v'. (n = ''Data'' \<or> n = ''Summary'') \<longrightarrow>
        cell_at wo n a = Some v \<longrightarrow> cell_at wn n a = Some v' \<longrightarrow>
        \<not> delta_cell n a \<longrightarrow> v = v')"
  unfolding old_workbook_eq new_workbook_eq
  by (auto simp: cell_at_def sheet_by_name_def delta_cell_def split: if_splits)

theorem minimal_delta_witness:
  "\<exists>wo wn. old_workbook = Some wo \<and> new_workbook = Some wn \<and>
     cell_at wo ''Data'' (1, 3) = Some (Str ''P002'') \<and>
     cell_at wn ''Data'' (1, 3) = Some (Str ''P002'') \<and>
     cell_at wo ''Summary'' (1, 5) = cell_at wn ''Summary'' (1, 5) \<and>
     cell_at wo ''Summary'' (1, 5) = Some (Str ''Total Score'') \<and>
     \<not> delta_cell ''Data'' (1, 3) \<and> \<not> delta_cell ''Summary'' (1, 5)"
proof -
  from minimal_delta obtain wo wn where
    o: "old_workbook = Some wo" and n: "new_workbook = Some wn" and
    d: "\<And>n a v v'. n = ''Data'' \<or> n = ''Summary'' \<Longrightarrow> cell_at wo n a = Some v \<Longrightarrow>
          cell_at wn n a = Some v' \<Longrightarrow> \<not> delta_cell n a \<Longrightarrow> v = v'"
    by blast
  have o1: "cell_at wo ''Data'' (1, 3) = Some (Str ''P002'')"
    using o unfolding old_workbook_eq by (auto simp: cell_at_def sheet_by_name_def)
  have n1: "cell_at wn ''Data'' (1, 3) = Some (Str ''P002'')"
    using n unfolding new_workbook_eq by (auto simp: cell_at_def sheet_by_name_def)
  have o2: "cell_at wo ''Summary'' (1, 5) = Some (Str ''Total Score'')"
    using o unfolding old_workbook_eq by (auto simp: cell_at_def sheet_by_name_def)
  obtain v' where n2: "cell_at wn ''Summary'' (1, 5) = Some v'"
    using n unfolding new_workbook_eq by (auto simp: cell_at_def sheet_by_name_def)
  have k1: "\<not> delta_cell ''Data'' (1, 3)" and k2: "\<not> delta_cell ''Summary'' (1, 5)"
    by (simp_all add: delta_cell_def)
  have "Str ''Total Score'' = v'"
    using d [of "''Summary''" "(1, 5)", OF _ o2 n2 k2] by simp
  with o2 n2 have e: "cell_at wo ''Summary'' (1, 5) = cell_at wn ''Summary'' (1, 5)"
    by simp
  from o n o1 n1 e o2 k1 k2 show ?thesis by blast
qed

text \<open>
  C7. The entry point performs exactly two actions in order: it builds "old" and persists it
  to \<^verbatim>\<open>test_old.xlsx\<close>, then builds "new" and persists it to \<^verbatim>\<open>test_new.xlsx\<close>, the
  second sink call starting from the file system the first one left. When both calls succeed
  it has printed one confirmation line per file, then the "Done" message and the two command
  lines of the downstream tool, which name the two output paths.
\<close>

theorem main_success:
  "\<exists>wo wn. old_workbook = Some wo \<and> new_workbook = Some wn \<and>
     (\<forall>(sink :: ('e, 'fs) sink) w f1 f2.
        sink wo ''test_old.xlsx'' (fs w) = (None, f1) \<longrightarrow>
        sink wn ''test_new.xlsx'' f1 = (None, f2) \<longrightarrow>
        create_old sink w = (None, w\<lparr>fs := f1, stdout := stdout w @ [''Created test_old.xlsx'']\<rparr>) \<and>
        main sink w =
          (None, w\<lparr>fs := f2,
                   stdout := stdout w @
                     [''Created test_old.xlsx'', ''Created test_new.xlsx'', ''Done! Run:'',
                      ''  xlsx-review --diff test_old.xlsx test_new.xlsx'',
                      ''  xlsx-review --textconv test_new.xlsx'']\<rparr>))"
proof -
  obtain wo wn where o: "old_workbook = Some wo" and n: "new_workbook = Some wn"
    using old_workbook_eq new_workbook_eq by blast
  have "create_old sink w = (None, w\<lparr>fs := f1, stdout := stdout w @ [''Created test_old.xlsx'']\<rparr>) \<and>
        main sink w =
          (None, w\<lparr>fs := f2,
                   stdout := stdout w @
                     [''Created test_old.xlsx'', ''Created test_new.xlsx'', ''Done! Run:'',
                      ''  xlsx-review --diff test_old.xlsx test_new.xlsx'',
                      ''  xlsx-review --textconv test_new.xlsx'']\<rparr>)"
    if "sink wo ''test_old.xlsx'' (fs w) = (None, f1)" "sink wn ''test_new.xlsx'' f1 = (None, f2)"
    for sink :: "('e, 'fs) sink" and w f1 f2
    using that by (simp add: o n main_def create_old_def create_new_def save_def print_line_def)
  with o n show ?thesis by blast
qed

theorem main_success_witness:
  "\<exists>wo wn. old_workbook = Some wo \<and> new_workbook = Some wn \<and>
     main (\<lambda>wb p log. (None :: unit option, log @ [(p, wb)])) \<lparr>fs = [], stdout = []\<rparr> =
       (None, \<lparr>fs = [(''test_old.xlsx'', wo), (''test_new.xlsx'', wn)],
               stdout = [''Created test_old.xlsx'', ''Created test_new.xlsx'', ''Done! Run:'',
                         ''  xlsx-review --diff test_old.xlsx test_new.xlsx'',
                         ''  xlsx-review --textconv test_new.xlsx'']\<rparr>)"
proof -
  from main_success [where 'e = unit and 'fs = "(string \<times> workbook) list"] obtain wo wn where
    o: "old_workbook = Some wo" and n: "new_workbook = Some wn" and
    m: "\<And>(sink :: (unit, (string \<times> workbook) list) sink) w f1 f2.
          sink wo ''test_old.xlsx'' (fs w) = (None, f1) \<Longrightarrow>
          sink wn ''test_new.xlsx'' f1 = (None, f2) \<Longrightarrow>
          main sink w =
            (None, w\<lparr>fs := f2,
                     stdout := stdout w @
                       [''Created test_old.xlsx'', ''Created test_new.xlsx'', ''Done! Run:'',
                        ''  xlsx-review --diff test_old.xlsx test_new.xlsx'',
                        ''  xlsx-review --textconv test_new.xlsx'']\<rparr>)"
    by blast
  have "main (\<lambda>wb p log. (None :: unit option, log @ [(p, wb)])) \<lparr>fs = [], stdout = []\<rparr> =
       (None, \<lparr>fs = [], stdout = []\<rparr>\<lparr>fs := [(''test_old.xlsx'', wo), (''test_new.xlsx'', wn)],
               stdout := stdout \<lparr>fs = [] :: (string \<times> workbook) list, stdout = []\<rparr> @
                        [''Created test_old.xlsx'', ''Created test_new.xlsx'', ''Done! Run:'',
                         ''  xlsx-review --diff test_old.xlsx test_new.xlsx'',
                         ''  xlsx-review --textconv test_new.xlsx'']\<rparr>)"
    by (rule m) simp_all
  then have "main (\<lambda>wb p log. (None :: unit option, log @ [(p, wb)])) \<lparr>fs = [], stdout = []\<rparr> =
       (None, \<lparr>fs = [(''test_old.xlsx'', wo), (''test_new.xlsx'', wn)],
               stdout = [''Created test_old.xlsx'', ''Created test_new.xlsx'', ''Done! Run:'',
                         ''  xlsx-review --diff test_old.xlsx test_new.xlsx'',
                         ''  xlsx-review --textconv test_new.xlsx'']\<rparr>)"
    by simp
  with o n show ?thesis by blast
qed

text \<open>
  C8. When the sink fails, its error reaches the caller as it is and the run ends there.
  A failure while persisting "old" ends the run with that error, nothing printed and the
  file system as the failed call left it: the sink is never called for "new". A failure
  while persisting "new" ends the run with that error after the one confirmation line for
  "old", and without the "Done" message: no run ends without an error when a file was not
  written.
\<close>

theorem sink_failure_aborts:
  "\<exists>wo wn. old_workbook = Some wo \<and> new_workbook = Some wn \<and>
     (\<forall>(sink :: ('e, 'fs) sink) w e f1.
        sink wo ''test_old.xlsx'' (fs w) = (Some e, f1) \<longrightarrow>
        create_old sink w = (Some (SinkError e), w\<lparr>fs := f1\<rparr>) \<and>
        main sink w = (Some (SinkError e), w\<lparr>fs := f1\<rparr>)) \<and>
     (\<forall>(sink :: ('e, 'fs) sink) w e f1 f2.
        sink wo ''test_old.xlsx'' (fs w) = (None, f1) \<longrightarrow>
        sink wn ''test_new.xlsx'' f1 = (Some e, f2) \<longrightarrow>
        main sink w =
          (Some (SinkError e), w\<lparr>fs := f2, stdout := stdout w @ [''Created test_old.xlsx'']\<rparr>))"
proof -
  obtain wo wn where o: "old_workbook = Some wo" and n: "new_workbook = Some wn"
    using old_workbook_eq new_workbook_eq by blast
  have first: "create_old sink w = (Some (SinkError e), w\<lparr>fs := f1\<rparr>) \<and>
        main sink w = (Some (SinkError e), w\<lparr>fs := f1\<rparr>)"
    if "sink wo ''test_old.xlsx'' (fs w) = (Some e, f1)"
    for sink :: "('e, 'fs) sink" and w e f1
    using that by (simp add: o main_def create_old_def save_def)
  have second: "main sink w =
          (Some (SinkError e), w\<lparr>fs := f2, stdout := stdout w @ [''Created test_old.xlsx'']\<rparr>)"
    if "sink wo ''test_old.xlsx'' (fs w) = (None, f1)" "sink wn ''test_new.xlsx'' f1 = (Some e, f2)"
    for sink :: "('e, 'fs) sink" and w e f1 f2
    using that by (simp add: o n main_def create_old_def create_new_def save_def print_line_def)
  from o n first second show ?thesis by blast
qed

theorem sink_failure_aborts_witness:
  "main (\<lambda>wb p log. if p = ''test_old.xlsx'' then (Some ''disk full'', log)
                     else (None, log @ [(p, wb)])) \<lparr>fs = [], stdout = []\<rparr> =
     (Some (SinkError ''disk full''), \<lparr>fs = [], stdout = []\<rparr>) \<and>
   (\<exists>wo. old_workbook = Some wo \<and>
     main (\<lambda>wb p log. if p = ''test_new.xlsx'' then (Some ''disk full'', log)
                       else (None, log @ [(p, wb)])) \<lparr>fs = [], stdout = []\<rparr> =
       (Some (SinkError ''disk full''),
        \<lparr>fs = [(''test_old.xlsx'', wo)], stdout = [''Created test_old.xlsx'']\<rparr>))"
proof -
  let ?w = "\<lparr>fs = [] :: (string \<times> workbook) list, stdout = []\<rparr>"
  let ?s1 = "\<lambda>wb p log. if p = ''test_old.xlsx'' then (Some ''disk full'', log)
                     else (None, log @ [(p, wb :: workbook)])"
  let ?s2 = "\<lambda>wb p log. if p = ''test_new.xlsx'' then (Some ''disk full'', log)
                     else (None, log @ [(p, wb :: workbook)])"
  from sink_failure_aborts [where 'e = string and 'fs = "(string \<times> workbook) list"]
  obtain wo wn where
    o: "old_workbook = Some wo" and n: "new_workbook = Some wn" and
    a: "\<And>(sink :: (string, (string \<times> workbook) list) sink) w e f1.
          sink wo ''test_old.xlsx'' (fs w) = (Some e, f1) \<Longrightarrow>
          main sink w = (Some (SinkError e), w\<lparr>fs := f1\<rparr>)" and
    b: "\<And>(sink :: (string, (string \<times> workbook) list) sink) w e f1 f2.
          sink wo ''test_old.xlsx'' (fs w) = (None, f1) \<Longrightarrow>
          sink wn ''test_new.xlsx'' f1 = (Some e, f2) \<Longrightarrow>
          main sink w =
            (Some (SinkError e), w\<lparr>fs := f2, stdout := stdout w @ [''Created test_old.xlsx'']\<rparr>)"
    by blast
  have h1: "?s1 wo ''test_old.xlsx'' (fs ?w) = (Some ''disk full'', [])" by simp
  have h2: "?s2 wo ''test_old.xlsx'' (fs ?w) = (None, [(''test_old.xlsx'', wo)])" by simp
  have h3: "?s2 wn ''test_new.xlsx'' [(''test_old.xlsx'', wo)] =
      (Some ''disk full'', [(''test_old.xlsx'', wo)])" by simp
  have r1: "main ?s1 ?w = (Some (SinkError ''disk full''), ?w\<lparr>fs := []\<rparr>)"
    using h1 by (rule a [of ?s1 ?w "''disk full''" "[]"])
  have r2: "main ?s2 ?w =
      (Some (SinkError ''disk full''),
       ?w\<lparr>fs := [(''test_old.xlsx'', wo)], stdout := stdout ?w @ [''Created test_old.xlsx'']\<rparr>)"
    using h2 h3
    by (rule b [of ?s2 ?w "[(''test_old.xlsx'', wo)]" "''disk full''" "[(''test_old.xlsx'', wo)]"])
  from r1 have r1': "main ?s1 ?w = (Some (SinkError ''disk full''), ?w)" by simp
  from r2 have r2': "main ?s2 ?w =
      (Some (SinkError ''disk full''),
       \<lparr>fs = [(''test_old.xlsx'', wo)], stdout = [''Created test_old.xlsx'']\<rparr>)" by simp
  from r1' r2' o show ?thesis by blast
qed

end
